theory Spec2Isabelle
  imports Complex_Main
begin

section \<open>Text primitives\<close>

text \<open>
  Python \<open>str\<close> values are modelled as HOL strings; a character is a code point below 256
  (ASCII and Latin-1), and the character classes below are Python's on that range.
  Numbers (Python \<open>int\<close> and \<open>float\<close>) are modelled as exact rationals; rounding of binary
  floating point is not modelled.
\<close>

definition is_space :: "char \<Rightarrow> bool" where
  \<comment> \<open>\<open>str.isspace\<close>, which is also what \<open>str.split()\<close> and \<open>\s\<close> separate on: TAB, LF, VT,
      FF, CR, FS, GS, RS, US, the blank, NEL (0x85) and the no-break space (0xA0)\<close>
  "is_space c = (let n = (of_char c :: nat)
                 in (9 \<le> n \<and> n \<le> 13) \<or> (28 \<le> n \<and> n \<le> 32) \<or> n = 133 \<or> n = 160)"

definition lower_char :: "char \<Rightarrow> char" where
  \<comment> \<open>the letters A to Z and the Latin-1 capitals (0xC0 to 0xDE without the multiplication
      sign 0xD7) move up by 32; every other character is unchanged\<close>
  "lower_char c = (let n = (of_char c :: nat)
                   in if (65 \<le> n \<and> n \<le> 90) \<or> (192 \<le> n \<and> n \<le> 214) \<or> (216 \<le> n \<and> n \<le> 222)
                      then char_of (n + 32) else c)"

definition lower :: "string \<Rightarrow> string" where
  \<comment> \<open>\<open>str.lower()\<close>\<close>
  "lower s = map lower_char s"

fun starts_with :: "string \<Rightarrow> string \<Rightarrow> bool" where
  \<comment> \<open>\<open>starts_with t k\<close>: \<open>t.startswith(k)\<close>\<close>
  "starts_with t [] = True"
| "starts_with [] (k # ks) = False"
| "starts_with (c # cs) (k # ks) = (c = k \<and> starts_with cs ks)"

fun contains :: "string \<Rightarrow> string \<Rightarrow> bool" where
  \<comment> \<open>\<open>contains t k\<close>: the Python test \<open>k in t\<close>\<close>
  "contains [] k = (k = [])"
| "contains (c # cs) k = (starts_with (c # cs) k \<or> contains cs k)"

fun split_acc :: "string \<Rightarrow> string \<Rightarrow> string list" where
  "split_acc cur [] = (if cur = [] then [] else [cur])"
| "split_acc cur (c # cs) =
     (if is_space c then (if cur = [] then split_acc [] cs else cur # split_acc [] cs)
      else split_acc (cur @ [c]) cs)"

definition py_split :: "string \<Rightarrow> string list" where
  \<comment> \<open>\<open>str.split()\<close> with no argument: the maximal runs of non-whitespace characters\<close>
  "py_split s = split_acc [] s"

definition count_present :: "string list \<Rightarrow> string \<Rightarrow> nat" where
  \<comment> \<open>\<open>sum(1 for word in keywords if word in text)\<close>\<close>
  "count_present keywords t = length (filter (\<lambda>word. contains t word) keywords)"

section \<open>Emotion heuristic\<close>

record emotion_data =
  emotion_score :: rat
  enthusiasm_level :: rat
  voice_pace :: rat
  tone_professional :: rat
  tone_excited :: rat
  tone_confident :: rat
  tone_uncertain :: rat

subsection \<open>\<open>final_web_app.analyze_emotion_from_text\<close>\<close>

definition enthusiasm_keywords :: "string list" where
  "enthusiasm_keywords =
     [''excited'', ''love'', ''amazing'', ''perfect'', ''great'', ''fantastic'', ''wow'', ''awesome'']"

definition professional_keywords :: "string list" where
  "professional_keywords =
     [''need'', ''require'', ''business'', ''professional'', ''office'', ''company'', ''corporate'']"

definition uncertainty_keywords :: "string list" where
  "uncertainty_keywords =
     [''maybe'', ''perhaps'', ''not sure'', ''uncertain'', ''think'', ''might'', ''possibly'']"

definition confidence_keywords :: "string list" where
  "confidence_keywords =
     [''definitely'', ''certainly'', ''absolutely'', ''sure'', ''confident'', ''know'', ''clear'']"

definition analyze_emotion_from_text :: "string \<Rightarrow> emotion_data" where
  "analyze_emotion_from_text text =
     (let text_lower = lower text;
          word_count = max (length (py_split text_lower)) 1;
          enthusiasm = min (of_nat (count_present enthusiasm_keywords text_lower) / of_nat word_count * 8) 1;
          professional = min (of_nat (count_present professional_keywords text_lower) / of_nat word_count * 5) 1;
          uncertainty = min (of_nat (count_present uncertainty_keywords text_lower) / of_nat word_count * 8) 1;
          confidence = min (of_nat (count_present confidence_keywords text_lower) / of_nat word_count * 8) 1;
          score = 1/2 + (enthusiasm + confidence - uncertainty) * (3/10)
      in \<lparr> emotion_score = max 0 (min 1 score),
           enthusiasm_level = enthusiasm,
           voice_pace = 1 + (enthusiasm - 1/2) * (4/10),
           tone_professional = professional,
           tone_excited = enthusiasm,
           tone_confident = confidence,
           tone_uncertain = uncertainty \<rparr>)"

subsection \<open>\<open>TranscriptionService._basic_emotion_analysis\<close>\<close>

definition enthusiasm_keywords_basic :: "string list" where
  "enthusiasm_keywords_basic =
     [''excited'', ''love'', ''amazing'', ''perfect'', ''great'', ''fantastic'']"

definition professional_keywords_basic :: "string list" where
  "professional_keywords_basic = [''need'', ''require'', ''business'', ''professional'', ''office'']"

definition uncertainty_keywords_basic :: "string list" where
  "uncertainty_keywords_basic = [''maybe'', ''perhaps'', ''not sure'', ''uncertain'', ''hmm'']"

definition basic_emotion_analysis :: "string \<Rightarrow> emotion_data" where
  "basic_emotion_analysis transcript =
     (let text_lower = lower transcript;
          enthusiasm_score = count_present enthusiasm_keywords_basic text_lower;
          professional_score = count_present professional_keywords_basic text_lower;
          uncertainty_score = count_present uncertainty_keywords_basic text_lower;
          total_words = length (py_split text_lower);
          enthusiasm = (if total_words > 0
                        then min (of_nat enthusiasm_score / of_nat total_words * 10) 1 else 1/2);
          professional = (if total_words > 0
                          then min (of_nat professional_score / of_nat total_words * 10) 1 else 1/2);
          uncertainty = (if total_words > 0
                         then min (of_nat uncertainty_score / of_nat total_words * 10) 1 else 3/10)
      in \<lparr> emotion_score = 1/2 + (enthusiasm - uncertainty) * (1/2),
           enthusiasm_level = enthusiasm,
           voice_pace = 1,
           tone_professional = professional,
           tone_excited = enthusiasm,
           tone_confident = 1 - uncertainty,
           tone_uncertain = uncertainty \<rparr>)"

section \<open>Regular expressions\<close>

text \<open>
  The patterns of the source are values of \<open>rx\<close>; \<open>ms\<close> is a backtracking matcher that lists
  every way a pattern matches at the start of a string, in the order in which Python's \<open>re\<close>
  tries them (greedy repetition longest first, lazy repetition shortest first, alternatives
  left to right). A result is the text of the capturing group and the unread rest. Every
  pattern of the source has one capturing group, outside any repetition.
\<close>

definition is_digit :: "char \<Rightarrow> bool" where
  \<comment> \<open>\<open>\d\<close> on ASCII\<close>
  "is_digit c = (let n = (of_char c :: nat) in 48 \<le> n \<and> n \<le> 57)"

datatype rx = Lit string | Digit | Space | Dot | Seq rx rx | Alt rx rx | Opt rx | Star rx
  | StarLazy rx | Group rx

type_synonym rx_result = "string option \<times> string"

fun first_some :: "'a option \<Rightarrow> 'a option \<Rightarrow> 'a option" where
  "first_some (Some a) b = Some a"
| "first_some None b = b"

fun one_char :: "(char \<Rightarrow> bool) \<Rightarrow> string \<Rightarrow> rx_result list" where
  "one_char P [] = []"
| "one_char P (x # xs) = (if P x then [(None, xs)] else [])"

fun star_iter :: "nat \<Rightarrow> (string \<Rightarrow> rx_result list) \<Rightarrow> string \<Rightarrow> rx_result list" where
  \<comment> \<open>greedy \<open>*\<close>: one more iteration first, then stop; the fuel is the length of the input\<close>
  "star_iter 0 f s = [(None, s)]"
| "star_iter (Suc n) f s =
     concat (map (\<lambda>(c, r). if length r < length s then star_iter n f r else []) (f s))
     @ [(None, s)]"

fun lazy_iter :: "nat \<Rightarrow> (string \<Rightarrow> rx_result list) \<Rightarrow> string \<Rightarrow> rx_result list" where
  \<comment> \<open>lazy \<open>*?\<close>: stop first, then one more iteration\<close>
  "lazy_iter 0 f s = [(None, s)]"
| "lazy_iter (Suc n) f s =
     (None, s) # concat (map (\<lambda>(c, r). if length r < length s then lazy_iter n f r else []) (f s))"

primrec ms :: "rx \<Rightarrow> string \<Rightarrow> rx_result list" where
  "ms (Lit w) s = (if starts_with s w then [(None, drop (length w) s)] else [])"
| "ms Digit s = one_char is_digit s"
| "ms Space s = one_char is_space s"
| "ms Dot s = one_char (\<lambda>x. x \<noteq> CHR 0x0A) s"
| "ms (Seq a b) s =
     concat (map (\<lambda>(c1, r1). map (\<lambda>(c2, r2). (first_some c1 c2, r2)) (ms b r1)) (ms a s))"
| "ms (Alt a b) s = ms a s @ ms b s"
| "ms (Opt a) s = ms a s @ [(None, s)]"
| "ms (Star a) s = star_iter (length s) (ms a) s"
| "ms (StarLazy a) s = lazy_iter (length s) (ms a) s"
| "ms (Group a) s = map (\<lambda>(c, r). (Some (take (length s - length r) s), r)) (ms a s)"

definition Plus :: "rx \<Rightarrow> rx" where
  \<comment> \<open>greedy \<open>+\<close>\<close>
  "Plus a = Seq a (Star a)"

fun group1 :: "rx_result \<Rightarrow> string" where
  "group1 (Some g, rest) = g"
| "group1 (None, rest) = []"

function findall :: "rx \<Rightarrow> string \<Rightarrow> string list" where
  \<comment> \<open>\<open>re.findall\<close> for a pattern with one group: the group of each leftmost match, the scan
      resuming where the match ended (one character further after an empty match)\<close>
  "findall r [] = (case ms r [] of [] \<Rightarrow> [] | m # _ \<Rightarrow> [group1 m])"
| "findall r (x # xs) =
     (case ms r (x # xs) of
        [] \<Rightarrow> findall r xs
      | m # _ \<Rightarrow> group1 m # (if length (snd m) < Suc (length xs) then findall r (snd m)
                              else findall r xs))"
  by pat_completeness auto
termination
  by (relation "measure (\<lambda>(r, s). length s)") auto

fun search :: "rx \<Rightarrow> string \<Rightarrow> string option" where
  \<comment> \<open>\<open>re.search(...)\<close> followed by \<open>.group(1)\<close>; \<open>None\<close> when nothing matches\<close>
  "search r [] = (case ms r [] of [] \<Rightarrow> None | m # _ \<Rightarrow> Some (group1 m))"
| "search r (x # xs) = (case ms r (x # xs) of [] \<Rightarrow> search r xs | m # _ \<Rightarrow> Some (group1 m))"

subsection \<open>Pattern fragments shared by the source's patterns\<close>

definition ws :: rx where
  \<comment> \<open>\<open>\s*\<close>\<close>
  "ws = Star Space"

definition opt_dot :: rx where
  \<comment> \<open>\<open>\.?\<close>\<close>
  "opt_dot = Opt (Lit ''.'')"

definition sq_ft :: rx where
  \<comment> \<open>\<open>sq\.?\s*ft\.?\<close>\<close>
  "sq_ft = Seq (Lit ''sq'') (Seq opt_dot (Seq ws (Seq (Lit ''ft'') opt_dot)))"

definition digits_1_3 :: rx where
  \<comment> \<open>\<open>\d{1,3}\<close>, three digits tried first\<close>
  "digits_1_3 = Seq Digit (Opt (Seq Digit (Opt Digit)))"

definition thousands :: rx where
  \<comment> \<open>\<open>\d{1,3}(?:,\d{3})*\<close>\<close>
  "thousands = Seq digits_1_3 (Star (Seq (Lit '','') (Seq Digit (Seq Digit Digit))))"

definition opt_per :: rx where
  \<comment> \<open>\<open>(?:per\s*)?\<close>\<close>
  "opt_per = Opt (Seq (Lit ''per'') ws)"

subsection \<open>Number conversion\<close>

definition digit_val :: "char \<Rightarrow> int" where
  "digit_val c = of_char c - 48"

definition py_int :: "string \<Rightarrow> int option" where
  \<comment> \<open>\<open>int(s)\<close> on the strings the patterns capture: a non-empty run of digits; \<open>None\<close> is
      ValueError. The interpreter's limit on the length of a digit string (4300 digits by
      default in recent versions) is not modelled.\<close>
  "py_int s = (if s \<noteq> [] \<and> list_all is_digit s
               then Some (foldl (\<lambda>a c. 10 * a + digit_val c) 0 s) else None)"

definition py_float :: "string \<Rightarrow> rat option" where
  \<comment> \<open>\<open>float(s)\<close> on the strings the patterns capture: digits, or digits, a point and
      digits; \<open>None\<close> is ValueError\<close>
  "py_float s =
     (let ip = takeWhile (\<lambda>c. c \<noteq> CHR ''.'') s; rest = dropWhile (\<lambda>c. c \<noteq> CHR ''.'') s
      in case rest of
           [] \<Rightarrow> map_option of_int (py_int ip)
         | dot # fp \<Rightarrow>
             (case (py_int ip, py_int fp) of
                (Some a, Some b) \<Rightarrow> Some (of_int a + of_int b / 10 ^ length fp)
              | _ \<Rightarrow> None))"

definition remove_commas :: "string \<Rightarrow> string" where
  \<comment> \<open>\<open>s.replace(',', '')\<close>\<close>
  "remove_commas s = filter (\<lambda>c. c \<noteq> CHR '','') s"

fun join_with :: "string \<Rightarrow> string list \<Rightarrow> string" where
  \<comment> \<open>\<open>sep.join(parts)\<close>\<close>
  "join_with sep [] = []"
| "join_with sep [x] = x"
| "join_with sep (x # y # ys) = x @ sep @ join_with sep (y # ys)"

section \<open>Requirement extraction (\<open>PropertyMatchingService\<close>)\<close>

record requirements =
  min_size :: "rat option"
  max_size :: "rat option"
  max_rent_per_sf :: "rat option"
  preferred_locations :: "string list"
  culture_keywords :: "string list"

text \<open>
  The keys \<open>company_size\<close>, \<open>industry\<close>, \<open>must_haves\<close> and \<open>nice_to_haves\<close> of the source's
  dictionary are initialised and never written or read again; they are left out.
\<close>

definition size_pattern_sqft :: rx where
  \<comment> \<open>\<open>(\d{1,3}(?:,\d{3})*)\s*(?:sq\.?\s*ft\.?|square\s*feet?|sf)\<close>\<close>
  "size_pattern_sqft =
     Seq (Group thousands) (Seq ws
       (Alt sq_ft (Alt (Seq (Lit ''square'') (Seq ws (Seq (Lit ''fee'') (Opt (Lit ''t'')))))
                       (Lit ''sf''))))"

definition size_pattern_people :: rx where
  \<comment> \<open>\<open>(\d+)\s*people\<close>\<close>
  "size_pattern_people = Seq (Group (Plus Digit)) (Seq ws (Lit ''people''))"

definition size_pattern_team :: rx where
  \<comment> \<open>\<open>team\s*of\s*(\d+)\<close>\<close>
  "size_pattern_team = Seq (Lit ''team'') (Seq ws (Seq (Lit ''of'') (Seq ws (Group (Plus Digit)))))"

definition size_pattern_employees :: rx where
  \<comment> \<open>\<open>(\d+)\s*employees\<close>\<close>
  "size_pattern_employees = Seq (Group (Plus Digit)) (Seq ws (Lit ''employees''))"

definition size_patterns :: "(rx \<times> bool) list" where
  \<comment> \<open>each pattern with the value of the source's test
      \<open>'people' in pattern or 'team' in pattern or 'employees' in pattern\<close> on its text\<close>
  "size_patterns = [(size_pattern_sqft, False), (size_pattern_people, True),
                    (size_pattern_team, True), (size_pattern_employees, True)]"

definition size_of_match :: "bool \<Rightarrow> string \<Rightarrow> int option" where
  \<comment> \<open>the body of the \<open>try\<close>; \<open>None\<close> when \<open>int\<close> raises and the match is skipped\<close>
  "size_of_match people m =
     (case py_int (remove_commas m) of
        None \<Rightarrow> None
      | Some n \<Rightarrow> Some (if people then n * 125 else n))"

definition collect_sizes :: "string \<Rightarrow> int list" where
  "collect_sizes text_lower =
     concat (map (\<lambda>(pattern, people). List.map_filter (size_of_match people) (findall pattern text_lower))
                 size_patterns)"

fun py_min :: "int list \<Rightarrow> int" where
  "py_min [] = 0"
| "py_min (x # xs) = fold min xs x"

fun py_max :: "int list \<Rightarrow> int" where
  "py_max [] = 0"
| "py_max (x # xs) = fold max xs x"

definition size_bounds :: "int list \<Rightarrow> rat option \<times> rat option" where
  \<comment> \<open>\<open>if sizes: min_size = min(sizes); max_size = max(sizes) if len(sizes) > 1 else min(sizes) * 1.5\<close>\<close>
  "size_bounds sizes =
     (if sizes = [] then (None, None)
      else (Some (of_int (py_min sizes)),
            Some (if length sizes > 1 then of_int (py_max sizes) else of_int (py_min sizes) * (3/2))))"

definition budget_pattern_sqft :: rx where
  \<comment> \<open>\<open>\$(\d+(?:\.\d{2})?)\s*(?:per\s*)?(?:sq\.?\s*ft\.?|square\s*foot|sf)\<close>\<close>
  "budget_pattern_sqft =
     Seq (Lit ''$'') (Seq (Group (Seq (Plus Digit) (Opt (Seq (Lit ''.'') (Seq Digit Digit)))))
       (Seq ws (Seq opt_per
         (Alt sq_ft (Alt (Seq (Lit ''square'') (Seq ws (Lit ''foot''))) (Lit ''sf''))))))"

definition budget_pattern_month :: rx where
  \<comment> \<open>\<open>\$(\d{1,3}(?:,\d{3})*)\s*(?:per\s*)?month\<close>\<close>
  "budget_pattern_month =
     Seq (Lit ''$'') (Seq (Group thousands) (Seq ws (Seq opt_per (Lit ''month''))))"

definition budget_pattern_generic :: rx where
  \<comment> \<open>\<open>budget.*?\$(\d{1,3}(?:,\d{3})*)\<close>\<close>
  "budget_pattern_generic =
     Seq (Lit ''budget'') (Seq (StarLazy Dot) (Seq (Lit ''$'') (Group thousands)))"

definition budget_patterns :: "(rx \<times> bool) list" where
  \<comment> \<open>each pattern with the value of the source's test \<open>'month' in pattern\<close> on its text\<close>
  "budget_patterns = [(budget_pattern_sqft, False), (budget_pattern_month, True),
                      (budget_pattern_generic, False)]"

fun budget_loop :: "(rx \<times> bool) list \<Rightarrow> string \<Rightarrow> rat option" where
  \<comment> \<open>the loop over \<open>budget_patterns\<close>: \<open>break\<close> after the first pattern whose first match
      converts, \<open>continue\<close> when there is no match or \<open>float\<close> raises\<close>
  "budget_loop [] text_lower = None"
| "budget_loop ((pattern, month) # rest) text_lower =
     (case findall pattern text_lower of
        [] \<Rightarrow> budget_loop rest text_lower
      | m # _ \<Rightarrow>
          (case py_float (remove_commas m) of
             None \<Rightarrow> budget_loop rest text_lower
           | Some budget \<Rightarrow> Some (if month then budget * 12 / 2000 else budget)))"

definition location_keywords :: "string list" where
  "location_keywords = [''downtown'', ''uptown'', ''midtown'', ''district'', ''center'']"

definition culture_vocabulary :: "string list" where
  \<comment> \<open>the local list \<open>culture_keywords\<close> of \<open>_extract_requirements\<close>\<close>
  "culture_vocabulary = [''collaborative'', ''modern'', ''traditional'', ''creative'', ''corporate'',
                         ''startup'', ''professional'', ''casual'', ''innovative'', ''tech'']"

definition svc_extract_requirements :: "string list \<Rightarrow> requirements" where
  \<comment> \<open>\<open>PropertyMatchingService._extract_requirements\<close>; the argument is the list of the
      \<open>content\<close> fields of the conversation\<close>
  "svc_extract_requirements conversation_history =
     (let text_lower = lower (join_with '' '' conversation_history);
          sizes = collect_sizes text_lower
      in \<lparr> min_size = fst (size_bounds sizes),
           max_size = snd (size_bounds sizes),
           max_rent_per_sf = budget_loop budget_patterns text_lower,
           preferred_locations = filter (\<lambda>keyword. contains text_lower keyword) location_keywords,
           culture_keywords = filter (\<lambda>keyword. contains text_lower keyword) culture_vocabulary \<rparr>)"

record emotion_input =
  \<comment> \<open>the keys \<open>_apply_emotion_filters\<close> reads from the caller's dictionary; \<open>None\<close> is a missing key\<close>
  ei_enthusiasm_level :: "rat option"
  ei_excited :: "rat option"
  ei_professional :: "rat option"

definition get_default :: "'a option \<Rightarrow> 'a \<Rightarrow> 'a" where
  \<comment> \<open>\<open>d.get(key, default)\<close>\<close>
  "get_default v d = (case v of None \<Rightarrow> d | Some x \<Rightarrow> x)"

definition truthy :: "rat option \<Rightarrow> bool" where
  \<comment> \<open>Python truth of an optional number: \<open>None\<close> and zero are false\<close>
  "truthy v = (case v of None \<Rightarrow> False | Some x \<Rightarrow> x \<noteq> 0)"

definition scale_if_set :: "rat \<Rightarrow> rat option \<Rightarrow> rat option" where
  \<comment> \<open>\<open>if requirements[k]: requirements[k] *= factor\<close>\<close>
  "scale_if_set factor v = (if truthy v then map_option (\<lambda>x. x * factor) v else v)"

definition svc_apply_emotion_filters :: "requirements \<Rightarrow> emotion_input \<Rightarrow> requirements" where
  \<comment> \<open>\<open>PropertyMatchingService._apply_emotion_filters\<close>\<close>
  "svc_apply_emotion_filters req e =
     (let r1 = (if get_default (ei_enthusiasm_level e) (1/2) > 7/10
                then req\<lparr> max_rent_per_sf := scale_if_set (12/10) (max_rent_per_sf req),
                          max_size := scale_if_set (11/10) (max_size req) \<rparr>
                else req);
          r2 = (if get_default (ei_excited e) 0 > 6/10
                then r1\<lparr> culture_keywords := culture_keywords r1 @ [''modern'', ''innovative'', ''tech''] \<rparr>
                else r1)
      in if get_default (ei_professional e) 0 > 7/10
         then r2\<lparr> culture_keywords := culture_keywords r2 @ [''professional'', ''corporate''] \<rparr>
         else r2)"

definition svc_requirements :: "string list \<Rightarrow> emotion_input option \<Rightarrow> requirements" where
  \<comment> \<open>the first two steps of \<open>get_property_recommendations\<close>\<close>
  "svc_requirements conversation_history emotion =
     (case emotion of
        None \<Rightarrow> svc_extract_requirements conversation_history
      | Some e \<Rightarrow> svc_apply_emotion_filters (svc_extract_requirements conversation_history) e)"

section \<open>Property catalog\<close>

record property =
  \<comment> \<open>one row of the data frame, with the columns the matchers read or return\<close>
  unique_id :: string
  address :: string
  floor_no :: int
  suite :: string
  size_sf :: rat
  rent_sf_year :: rat

text \<open>
  The data frame is a list of rows in catalog order; a boolean-mask selection is \<open>filter\<close>,
  \<open>head(3)\<close> is \<open>take 3\<close>, \<open>to_dict('records')\<close> is the list itself. The remaining columns
  (associate, broker e-mail, annual and monthly rent) are carried through unread by both
  matchers and are left out. Cells are taken to be present (no NaN).
\<close>

definition PROP001 :: property where
  "PROP001 = \<lparr> unique_id = ''PROP001'', address = ''123 Innovation Drive Downtown'',
               floor_no = 5, suite = ''A'', size_sf = 2500, rent_sf_year = 28 \<rparr>"

definition PROP002 :: property where
  "PROP002 = \<lparr> unique_id = ''PROP002'', address = ''456 Tech Plaza Midtown'',
               floor_no = 8, suite = ''B'', size_sf = 3200, rent_sf_year = 32 \<rparr>"

definition PROP003 :: property where
  "PROP003 = \<lparr> unique_id = ''PROP003'', address = ''789 Business Center Uptown'',
               floor_no = 3, suite = ''C'', size_sf = 1800, rent_sf_year = 25 \<rparr>"

definition PROP004 :: property where
  "PROP004 = \<lparr> unique_id = ''PROP004'', address = ''321 Creative Commons Arts District'',
               floor_no = 2, suite = ''E'', size_sf = 2000, rent_sf_year = 26 \<rparr>"

definition PROP005 :: property where
  "PROP005 = \<lparr> unique_id = ''PROP005'', address = ''654 Executive Tower Financial District'',
               floor_no = 15, suite = ''F'', size_sf = 5000, rent_sf_year = 42 \<rparr>"

definition svc_sample_data :: "property list" where
  \<comment> \<open>\<open>PropertyMatchingService._create_sample_data\<close>\<close>
  "svc_sample_data = [PROP001, PROP002, PROP003]"

definition web_sample_data :: "property list" where
  \<comment> \<open>the fallback frame of \<open>final_web_app.load_properties\<close>\<close>
  "web_sample_data = [PROP001, PROP002, PROP003, PROP004, PROP005]"

section \<open>Property matcher (\<open>PropertyMatchingService._find_matching_properties\<close>)\<close>

definition filter_if_set :: "rat option \<Rightarrow> (rat \<Rightarrow> property \<Rightarrow> bool) \<Rightarrow> property list \<Rightarrow> property list" where
  \<comment> \<open>\<open>if requirements[k]: filtered_df = filtered_df[mask]\<close>: the mask is applied when the
      bound is neither \<open>None\<close> nor zero\<close>
  "filter_if_set bound keep df =
     (case bound of
        None \<Rightarrow> df
      | Some v \<Rightarrow> if v = 0 then df else filter (keep v) df)"

definition address_has_location :: "string list \<Rightarrow> property \<Rightarrow> bool" where
  \<comment> \<open>\<open>str.contains('|'.join(locations), case=False, na=False)\<close>, for location terms that are
      plain words (as the extractor's vocabulary is): some term occurs in the address,
      letter case ignored\<close>
  "address_has_location locations p =
     list_ex (\<lambda>loc. contains (lower (address p)) (lower loc)) locations"

definition culture_score :: "string list \<Rightarrow> property \<Rightarrow> nat" where
  "culture_score keywords p =
     length (filter (\<lambda>keyword. contains (lower (address p)) (lower keyword)) keywords)"

definition sort_by_score_desc :: "(property \<times> nat option) list \<Rightarrow> (property \<times> nat option) list" where
  \<comment> \<open>\<open>sort_values('culture_score', ascending=False)\<close>. Which of two rows with equal scores
      pandas puts first is decided by its sorting routine, outside the source; the model
      keeps them in their former order.\<close>
  "sort_by_score_desc rows = sort_key (\<lambda>row. - int (get_default (snd row) 0)) rows"

definition svc_filtered :: "property list \<Rightarrow> requirements \<Rightarrow> property list" where
  \<comment> \<open>\<open>filtered_df\<close> after the size, rent and location filters\<close>
  "svc_filtered properties_df req =
     (let f1 = filter_if_set (min_size req) (\<lambda>v p. size_sf p \<ge> v) properties_df;
          f2 = filter_if_set (max_size req) (\<lambda>v p. size_sf p \<le> v) f1;
          f3 = filter_if_set (max_rent_per_sf req) (\<lambda>v p. rent_sf_year p \<le> v) f2
      in if preferred_locations req \<noteq> []
         then filter (address_has_location (preferred_locations req)) f3
         else f3)"

definition svc_find_matching_properties :: "property list \<Rightarrow> requirements \<Rightarrow> (property \<times> nat option) list" where
  \<comment> \<open>a returned row is the property with its \<open>culture_score\<close> column, which exists only
      when culture keywords were given\<close>
  "svc_find_matching_properties properties_df req =
     (if properties_df = [] then []
      else let filtered_df = svc_filtered properties_df req
           in if culture_keywords req \<noteq> []
              then take 3 (sort_by_score_desc
                     (map (\<lambda>row. (row, Some (culture_score (culture_keywords req) row))) filtered_df))
              else take 3 (map (\<lambda>row. (row, None)) filtered_df))"

section \<open>Message matcher (\<open>final_web_app.find_matching_properties\<close>)\<close>

datatype error = ValueError

definition people_patterns :: "rx list" where
  \<comment> \<open>\<open>(\d+)\s*people\<close>, \<open>team\s*of\s*(\d+)\<close>, \<open>(\d+)\s*employees\<close>, \<open>(\d+)\s*person\s*team\<close>\<close>
  "people_patterns =
     [Seq (Group (Plus Digit)) (Seq ws (Lit ''people'')),
      Seq (Lit ''team'') (Seq ws (Seq (Lit ''of'') (Seq ws (Group (Plus Digit))))),
      Seq (Group (Plus Digit)) (Seq ws (Lit ''employees'')),
      Seq (Group (Plus Digit)) (Seq ws (Seq (Lit ''person'') (Seq ws (Lit ''team''))))]"

definition web_budget_patterns :: "rx list" where
  \<comment> \<open>\<open>\$(\d+)\s*(?:per\s*)?(?:sq\.?\s*ft\.?|square\s*foot)\<close>, \<open>budget.*?\$(\d+)\<close>,
      \<open>around\s*\$(\d+)\<close>, \<open>under\s*\$(\d+)\<close>\<close>
  "web_budget_patterns =
     [Seq (Lit ''$'') (Seq (Group (Plus Digit)) (Seq ws (Seq opt_per
        (Alt sq_ft (Seq (Lit ''square'') (Seq ws (Lit ''foot''))))))),
      Seq (Lit ''budget'') (Seq (StarLazy Dot) (Seq (Lit ''$'') (Group (Plus Digit)))),
      Seq (Lit ''around'') (Seq ws (Seq (Lit ''$'') (Group (Plus Digit)))),
      Seq (Lit ''under'') (Seq ws (Seq (Lit ''$'') (Group (Plus Digit))))]"

fun first_search :: "rx list \<Rightarrow> string \<Rightarrow> string option" where
  \<comment> \<open>group 1 of the first pattern, in list order, that \<open>re.search\<close> finds; the loops
      \<open>break\<close> there\<close>
  "first_search [] text_lower = None"
| "first_search (pattern # rest) text_lower =
     (case search pattern text_lower of
        Some g \<Rightarrow> Some g
      | None \<Rightarrow> first_search rest text_lower)"

definition size_matches :: "property list \<Rightarrow> string \<Rightarrow> error + property list" where
  \<comment> \<open>the rows added by the people-count loop\<close>
  "size_matches properties_df text_lower =
     (case first_search people_patterns text_lower of
        None \<Rightarrow> Inr []
      | Some g \<Rightarrow>
          (case py_int g of
             None \<Rightarrow> Inl ValueError
           | Some people_count \<Rightarrow>
               Inr (filter (\<lambda>p. size_sf p \<ge> of_int (people_count * 100) \<and>
                                size_sf p \<le> of_int (people_count * 200)) properties_df)))"

definition budget_matches :: "property list \<Rightarrow> string \<Rightarrow> error + property list" where
  \<comment> \<open>the rows added by the budget loop\<close>
  "budget_matches properties_df text_lower =
     (case first_search web_budget_patterns text_lower of
        None \<Rightarrow> Inr []
      | Some g \<Rightarrow>
          (case py_float g of
             None \<Rightarrow> Inl ValueError
           | Some budget \<Rightarrow>
               Inr (filter (\<lambda>p. rent_sf_year p \<le> budget * (12/10)) properties_df)))"

definition web_location_keywords :: "(string \<times> string) list" where
  \<comment> \<open>the dictionary \<open>location_keywords\<close>, in insertion order\<close>
  "web_location_keywords =
     [(''downtown'', ''Downtown''), (''midtown'', ''Midtown''), (''uptown'', ''Uptown''),
      (''financial'', ''Financial''), (''tech'', ''Tech''), (''creative'', ''Creative''),
      (''arts'', ''Arts'')]"

definition location_matches :: "property list \<Rightarrow> string \<Rightarrow> property list" where
  \<comment> \<open>the rows added by the location loop, one batch per keyword found in the message\<close>
  "location_matches properties_df text_lower =
     concat (map (\<lambda>(keyword, location).
                    if contains text_lower keyword
                    then filter (\<lambda>p. contains (lower (address p)) (lower location)) properties_df
                    else [])
                 web_location_keywords)"

fun unique_loop :: "string list \<Rightarrow> property list \<Rightarrow> property list" where
  \<comment> \<open>the loop building \<open>unique_matches\<close>; the first argument is \<open>seen_ids\<close>\<close>
  "unique_loop seen_ids [] = []"
| "unique_loop seen_ids (m # matches) =
     (if unique_id m \<notin> set seen_ids
      then m # unique_loop (unique_id m # seen_ids) matches
      else unique_loop seen_ids matches)"

definition find_matching_properties :: "property list \<Rightarrow> string \<Rightarrow> error + property list" where
  \<comment> \<open>\<open>final_web_app.find_matching_properties\<close>, with the module's data frame as first
      argument; \<open>Inl\<close> is an exception leaving the function\<close>
  "find_matching_properties properties_df message =
     (let text_lower = lower message
      in case size_matches properties_df text_lower of
           Inl e \<Rightarrow> Inl e
         | Inr by_size \<Rightarrow>
             (case budget_matches properties_df text_lower of
                Inl e \<Rightarrow> Inl e
              | Inr by_budget \<Rightarrow>
                  (let matches = by_size @ by_budget @ location_matches properties_df text_lower
                   in if matches \<noteq> [] then Inr (take 3 (unique_loop [] matches))
                      else Inr (take 3 properties_df))))"

section \<open>Vocabulary of the statements\<close>

definition bound_ok :: "rat option \<Rightarrow> (rat \<Rightarrow> bool) \<Rightarrow> bool" where
  \<comment> \<open>a row meets a bound when the bound is unset, is zero, or the test holds\<close>
  "bound_ok bound test = (case bound of None \<Rightarrow> True | Some v \<Rightarrow> v = 0 \<or> test v)"

definition passes :: "requirements \<Rightarrow> property \<Rightarrow> bool" where
  \<comment> \<open>the conjunction of the four row tests of \<open>_find_matching_properties\<close>\<close>
  "passes req p =
     (bound_ok (min_size req) (\<lambda>v. size_sf p \<ge> v) \<and>
      bound_ok (max_size req) (\<lambda>v. size_sf p \<le> v) \<and>
      bound_ok (max_rent_per_sf req) (\<lambda>v. rent_sf_year p \<le> v) \<and>
      (preferred_locations req = [] \<or> address_has_location (preferred_locations req) p))"

definition adds_bounds :: "requirements \<Rightarrow> requirements \<Rightarrow> bool" where
  \<comment> \<open>the second profile keeps every bound the first one sets and may set more\<close>
  "adds_bounds r1 r2 =
     ((min_size r1 = None \<or> min_size r2 = min_size r1) \<and>
      (max_size r1 = None \<or> max_size r2 = max_size r1) \<and>
      (max_rent_per_sf r1 = None \<or> max_rent_per_sf r2 = max_rent_per_sf r1) \<and>
      (preferred_locations r1 = [] \<or> preferred_locations r2 = preferred_locations r1))"

definition no_requirements :: requirements where
  \<comment> \<open>the profile with no bound, no location and no culture keyword\<close>
  "no_requirements = \<lparr> min_size = None, max_size = None, max_rent_per_sf = None,
                        preferred_locations = [], culture_keywords = [] \<rparr>"

definition nonneg_bound :: "rat option \<Rightarrow> bool" where
  \<comment> \<open>a bound is absent or not negative\<close>
  "nonneg_bound b = (case b of None \<Rightarrow> True | Some v \<Rightarrow> 0 \<le> v)"

fun range_ok :: "rat option \<Rightarrow> rat option \<Rightarrow> bool" where
  \<comment> \<open>two bounds are both absent, or both set with the lower one not above the upper one\<close>
  "range_ok None None = True"
| "range_ok (Some a) (Some b) = (a \<le> b)"
| "range_ok None (Some b) = False"
| "range_ok (Some a) None = False"

definition profile_ok :: "requirements \<Rightarrow> bool" where
  "profile_ok r = (nonneg_bound (min_size r) \<and> nonneg_bound (max_size r) \<and>
                   nonneg_bound (max_rent_per_sf r) \<and> range_ok (min_size r) (max_size r))"

fun nogroup :: "rx \<Rightarrow> bool" where
  \<comment> \<open>no capturing group outside a repetition\<close>
  "nogroup (Group a) = False"
| "nogroup (Seq a b) = (nogroup a \<and> nogroup b)"
| "nogroup (Alt a b) = (nogroup a \<and> nogroup b)"
| "nogroup (Opt a) = nogroup a"
| "nogroup r = True"

fun group_rx :: "rx \<Rightarrow> rx option" where
  \<comment> \<open>the body of the capturing group of a pattern that is a sequence with one group\<close>
  "group_rx (Group a) = Some a"
| "group_rx (Seq a b) =
     (case group_rx a of Some g \<Rightarrow> Some g | None \<Rightarrow> if nogroup a then group_rx b else None)"
| "group_rx r = None"

fun only :: "(char \<Rightarrow> bool) \<Rightarrow> rx \<Rightarrow> bool" where
  \<comment> \<open>\<open>only P r\<close>: every character that \<open>r\<close> can read satisfies \<open>P\<close>\<close>
  "only P (Lit w) = list_all P w"
| "only P Digit = (\<forall>c. is_digit c \<longrightarrow> P c)"
| "only P Space = (\<forall>c. is_space c \<longrightarrow> P c)"
| "only P Dot = (\<forall>c. c \<noteq> CHR 0x0A \<longrightarrow> P c)"
| "only P (Seq a b) = (only P a \<and> only P b)"
| "only P (Alt a b) = (only P a \<and> only P b)"
| "only P (Opt a) = only P a"
| "only P (Star a) = only P a"
| "only P (StarLazy a) = only P a"
| "only P (Group a) = only P a"

definition budget_by_priority :: "string \<Rightarrow> rat option" where
  \<comment> \<open>budget detection as the specification words it: the first family, in the order per
      square foot, per month, generic, that has a match decides, by its first match; a
      monthly amount is converted by \<open>monthly * 12 / 2000\<close>\<close>
  "budget_by_priority text_lower =
     (case findall budget_pattern_sqft text_lower of
        m # _ \<Rightarrow> py_float (remove_commas m)
      | [] \<Rightarrow>
          (case findall budget_pattern_month text_lower of
             m # _ \<Rightarrow> map_option (\<lambda>monthly. monthly * 12 / 2000) (py_float (remove_commas m))
           | [] \<Rightarrow>
               (case findall budget_pattern_generic text_lower of
                  m # _ \<Rightarrow> py_float (remove_commas m)
                | [] \<Rightarrow> None)))"


section \<open>Facts about the text primitives\<close>

lemma lower_char_space: "is_space c \<Longrightarrow> lower_char c = c"
  by (auto simp: is_space_def lower_char_def Let_def)

lemma lower_spaces: "\<forall>c\<in>set t. is_space c \<Longrightarrow> lower t = t"
  by (induction t) (simp_all add: lower_def lower_char_space)

lemma split_acc_spaces: "\<forall>c\<in>set t. is_space c \<Longrightarrow> split_acc [] t = []"
  by (induction t) simp_all

lemma starts_with_hd: "starts_with t (k # ks) \<Longrightarrow> k \<in> set t"
  by (cases t) simp_all

lemma contains_hd: "contains t (k # ks) \<Longrightarrow> k \<in> set t"
  by (induction t) (auto dest: starts_with_hd)

lemma count_present_spaces:
  assumes "\<forall>c\<in>set t. is_space c" and "\<forall>k\<in>set kws. k \<noteq> [] \<and> \<not> is_space (hd k)"
  shows "count_present kws t = 0"
proof -
  have "\<not> contains t k" if "k \<in> set kws" for k
  proof
    assume c: "contains t k"
    from that assms(2) have "k \<noteq> [] \<and> \<not> is_space (hd k)" by blast
    then have k: "k = hd k # tl k" and a: "\<not> is_space (hd k)" by simp_all
    from c k have "hd k \<in> set t" by (metis contains_hd)
    with assms(1) a show False by blast
  qed
  then show ?thesis by (simp add: count_present_def)
qed

lemma keywords_no_space:
  "\<forall>k\<in>set enthusiasm_keywords. k \<noteq> [] \<and> \<not> is_space (hd k)"
  "\<forall>k\<in>set professional_keywords. k \<noteq> [] \<and> \<not> is_space (hd k)"
  "\<forall>k\<in>set uncertainty_keywords. k \<noteq> [] \<and> \<not> is_space (hd k)"
  "\<forall>k\<in>set confidence_keywords. k \<noteq> [] \<and> \<not> is_space (hd k)"
  by (simp_all add: enthusiasm_keywords_def professional_keywords_def uncertainty_keywords_def
        confidence_keywords_def is_space_def)

section \<open>Claims about the emotion heuristic\<close>

lemma blank_text_facts:
  assumes "\<forall>c\<in>set text. is_space c"
  shows "lower text = text" and "py_split text = []"
    and "\<forall>k\<in>set kws. k \<noteq> [] \<and> \<not> is_space (hd k) \<Longrightarrow> count_present kws text = 0"
  using assms by (simp_all add: lower_spaces py_split_def split_acc_spaces count_present_spaces)

lemma keywords_basic_no_space:
  "\<forall>k\<in>set enthusiasm_keywords_basic. k \<noteq> [] \<and> \<not> is_space (hd k)"
  "\<forall>k\<in>set professional_keywords_basic. k \<noteq> [] \<and> \<not> is_space (hd k)"
  "\<forall>k\<in>set uncertainty_keywords_basic. k \<noteq> [] \<and> \<not> is_space (hd k)"
  by (simp_all add: enthusiasm_keywords_basic_def professional_keywords_basic_def
        uncertainty_keywords_basic_def is_space_def)

text \<open>
  C9 (as amended). For the empty string and for every whitespace-only text (whitespace as
  Python's \<open>str.isspace\<close> has it), \<open>analyze_emotion_from_text\<close> returns enthusiasm,
  professional, confidence and uncertainty levels 0 and emotion score 1/2: the word count
  floors at 1 and no keyword occurs. On the same texts \<open>_basic_emotion_analysis\<close> takes its
  zero-words branch and returns enthusiasm 1/2, professional 1/2, uncertainty 3/10,
  confidence 7/10 and emotion score 3/5.
\<close>

theorem analyze_emotion_blank:
  assumes "\<forall>c\<in>set text. is_space c"
  shows "analyze_emotion_from_text text =
           \<lparr> emotion_score = 1/2, enthusiasm_level = 0, voice_pace = 4/5,
             tone_professional = 0, tone_excited = 0, tone_confident = 0, tone_uncertain = 0 \<rparr> \<and>
         basic_emotion_analysis text =
           \<lparr> emotion_score = 3/5, enthusiasm_level = 1/2, voice_pace = 1,
             tone_professional = 1/2, tone_excited = 1/2, tone_confident = 7/10,
             tone_uncertain = 3/10 \<rparr>"
proof -
  note b = blank_text_facts [OF assms]
  have c: "count_present enthusiasm_keywords text = 0" "count_present professional_keywords text = 0"
    "count_present uncertainty_keywords text = 0" "count_present confidence_keywords text = 0"
    using keywords_no_space by (simp_all add: b(3))
  have web: "analyze_emotion_from_text text =
           \<lparr> emotion_score = 1/2, enthusiasm_level = 0, voice_pace = 4/5,
             tone_professional = 0, tone_excited = 0, tone_confident = 0, tone_uncertain = 0 \<rparr>"
    by (simp add: analyze_emotion_from_text_def b(1) b(2) c)
  have basic: "basic_emotion_analysis text =
           \<lparr> emotion_score = 3/5, enthusiasm_level = 1/2, voice_pace = 1,
             tone_professional = 1/2, tone_excited = 1/2, tone_confident = 7/10,
             tone_uncertain = 3/10 \<rparr>"
    by (simp add: basic_emotion_analysis_def b(1) b(2) Let_def)
  from web basic show ?thesis by (rule conjI)
qed

theorem analyze_emotion_blank_witness:
  "is_space (CHR 0xA0) \<and> is_space CHR '' '' \<and>
   emotion_score (analyze_emotion_from_text [CHR 0xA0, CHR '' '']) = 1/2 \<and>
   enthusiasm_level (analyze_emotion_from_text [CHR 0xA0, CHR '' '']) = 0 \<and>
   tone_uncertain (analyze_emotion_from_text [CHR 0xA0, CHR '' '']) = 0 \<and>
   emotion_score (basic_emotion_analysis [CHR 0xA0, CHR '' '']) = 3/5 \<and>
   enthusiasm_level (basic_emotion_analysis [CHR 0xA0, CHR '' '']) = 1/2 \<and>
   tone_uncertain (basic_emotion_analysis [CHR 0xA0, CHR '' '']) = 3/10"
proof -
  have h: "\<forall>c\<in>set [CHR 0xA0, CHR '' '']. is_space c" by (simp add: is_space_def)
  show ?thesis using h analyze_emotion_blank [OF h] by simp
qed

text \<open>
  C9 fails as stated on the second analyser: on the empty transcript
  \<open>_basic_emotion_analysis\<close> returns enthusiasm 0.5, professional 0.5, uncertainty 0.3 and
  emotion score 0.6, not the zeros and 0.5 of the claim.
\<close>

theorem basic_emotion_blank_counterexample:
  "basic_emotion_analysis [] =
     \<lparr> emotion_score = 3/5, enthusiasm_level = 1/2, voice_pace = 1,
       tone_professional = 1/2, tone_excited = 1/2, tone_confident = 7/10,
       tone_uncertain = 3/10 \<rparr> \<and>
   emotion_score (basic_emotion_analysis []) \<noteq> 1/2 \<and>
   enthusiasm_level (basic_emotion_analysis []) \<noteq> 0 \<and>
   tone_professional (basic_emotion_analysis []) \<noteq> 0 \<and>
   tone_uncertain (basic_emotion_analysis []) \<noteq> 0"
  by (simp add: basic_emotion_analysis_def lower_def py_split_def Let_def)

section \<open>Facts about the property matcher\<close>

lemma filter_if_set_eq:
  "filter_if_set bound keep df = filter (\<lambda>p. bound_ok bound (\<lambda>v. keep v p)) df"
  by (simp add: filter_if_set_def bound_ok_def split: option.splits)

lemma svc_filtered_eq: "svc_filtered df req = filter (passes req) df"
proof (cases "preferred_locations req = []")
  case True
  then show ?thesis
    by (simp add: svc_filtered_def filter_if_set_eq passes_def [abs_def] Let_def)
next
  case False
  then show ?thesis
    by (simp add: svc_filtered_def filter_if_set_eq passes_def [abs_def] Let_def)
qed

lemma set_sort_by_score_desc: "set (sort_by_score_desc rows) = set rows"
  by (simp add: sort_by_score_desc_def)

lemma svc_result_sub:
  assumes "(p, sc) \<in> set (svc_find_matching_properties df req)"
  shows "p \<in> set (svc_filtered df req)"
proof (cases "df = []")
  case True
  with assms show ?thesis by (simp add: svc_find_matching_properties_def)
next
  case False
  show ?thesis
  proof (cases "culture_keywords req = []")
    case True
    with assms \<open>df \<noteq> []\<close> have "(p, sc) \<in> set (take 3 (map (\<lambda>row. (row, None)) (svc_filtered df req)))"
      by (simp add: svc_find_matching_properties_def)
    then have "(p, sc) \<in> set (map (\<lambda>row. (row, None)) (svc_filtered df req))"
      by (rule in_set_takeD)
    then show ?thesis by auto
  next
    case False
    let ?scored = "map (\<lambda>row. (row, Some (culture_score (culture_keywords req) row))) (svc_filtered df req)"
    from assms \<open>df \<noteq> []\<close> False have "(p, sc) \<in> set (take 3 (sort_by_score_desc ?scored))"
      by (simp add: svc_find_matching_properties_def)
    then have "(p, sc) \<in> set (sort_by_score_desc ?scored)"
      by (rule in_set_takeD)
    then have "(p, sc) \<in> set ?scored"
      by (simp only: set_sort_by_score_desc)
    then show ?thesis by auto
  qed
qed

text \<open>
  C1 (as amended). For every requirement profile and every catalog, when the row tests of
  \<open>_find_matching_properties\<close> (each applied only when its bound is set and not zero) reject
  every record, the matcher returns the empty list; it has no fallback.
\<close>

theorem svc_no_fallback:
  assumes "\<forall>p\<in>set properties_df. \<not> passes req p"
  shows "svc_find_matching_properties properties_df req = []"
proof -
  have "svc_filtered properties_df req = []"
    using assms by (simp add: svc_filtered_eq filter_empty_conv)
  then show ?thesis
    by (simp add: svc_find_matching_properties_def sort_by_score_desc_def)
qed

text \<open>
  C6 (as amended). For every requirement profile whose \<open>max_rent_per_sf\<close> is set and not zero,
  every record returned by \<open>_find_matching_properties\<close> has a rent per square foot and year
  of at most that bound.
\<close>

theorem svc_rent_bound:
  assumes "max_rent_per_sf req = Some bound" and "bound \<noteq> 0"
    and "(p, sc) \<in> set (svc_find_matching_properties properties_df req)"
  shows "rent_sf_year p \<le> bound"
proof -
  from assms(3) have "p \<in> set (svc_filtered properties_df req)" by (rule svc_result_sub)
  then have "passes req p" by (simp add: svc_filtered_eq)
  with assms(1,2) show ?thesis by (simp add: passes_def bound_ok_def)
qed

lemma bound_ok_mono: "b1 = None \<or> b2 = b1 \<Longrightarrow> bound_ok b2 t \<Longrightarrow> bound_ok b1 t"
  by (auto simp: bound_ok_def)

lemma adds_bounds_passes:
  assumes "adds_bounds r1 r2" and "passes r2 p"
  shows "passes r1 p"
proof -
  from assms(1) have a: "min_size r1 = None \<or> min_size r2 = min_size r1"
    and b: "max_size r1 = None \<or> max_size r2 = max_size r1"
    and c: "max_rent_per_sf r1 = None \<or> max_rent_per_sf r2 = max_rent_per_sf r1"
    and d: "preferred_locations r1 = [] \<or> preferred_locations r2 = preferred_locations r1"
    by (simp_all add: adds_bounds_def)
  from assms(2) have a2: "bound_ok (min_size r2) (\<lambda>v. size_sf p \<ge> v)"
    and b2: "bound_ok (max_size r2) (\<lambda>v. size_sf p \<le> v)"
    and c2: "bound_ok (max_rent_per_sf r2) (\<lambda>v. rent_sf_year p \<le> v)"
    and d2: "preferred_locations r2 = [] \<or> address_has_location (preferred_locations r2) p"
    by (simp_all add: passes_def)
  have d1: "preferred_locations r1 = [] \<or> address_has_location (preferred_locations r1) p"
    using d d2 by auto
  show ?thesis
    unfolding passes_def
    using bound_ok_mono[OF a a2] bound_ok_mono[OF b b2] bound_ok_mono[OF c c2] d1 by blast
qed

lemma svc_length:
  "df \<noteq> [] \<Longrightarrow> length (svc_find_matching_properties df r) = min 3 (length (svc_filtered df r))"
  by (simp add: svc_find_matching_properties_def sort_by_score_desc_def Let_def min.commute)

text \<open>
  C8 (as amended). In \<open>_find_matching_properties\<close> filtering is conjunctive and monotone: when
  a second profile keeps the bounds of a first one and sets further bounds (a size bound, a
  rent bound or a non-empty location list), the records that survive the filters under the
  second profile are among those that survive under the first, and neither the surviving
  list nor the returned list gets longer.
\<close>

theorem svc_filter_monotone:
  assumes "adds_bounds r1 r2"
  shows "set (svc_filtered properties_df r2) \<subseteq> set (svc_filtered properties_df r1) \<and>
         length (svc_filtered properties_df r2) \<le> length (svc_filtered properties_df r1) \<and>
         length (svc_find_matching_properties properties_df r2)
           \<le> length (svc_find_matching_properties properties_df r1)"
proof -
  have "filter (passes r2) (filter (passes r1) properties_df)
        = filter (\<lambda>x. passes r1 x \<and> passes r2 x) properties_df"
    by (rule filter_filter)
  also have "\<dots> = filter (passes r2) properties_df"
    using adds_bounds_passes[OF assms] by (intro filter_cong[OF refl]) blast
  finally have eq: "svc_filtered properties_df r2 = filter (passes r2) (svc_filtered properties_df r1)"
    by (simp only: svc_filtered_eq)
  have sub: "set (svc_filtered properties_df r2) \<subseteq> set (svc_filtered properties_df r1)"
    by (subst eq) simp
  have len: "length (svc_filtered properties_df r2) \<le> length (svc_filtered properties_df r1)"
    by (subst eq) (rule length_filter_le)
  have out: "length (svc_find_matching_properties properties_df r2)
           \<le> length (svc_find_matching_properties properties_df r1)"
  proof (cases "properties_df = []")
    case True
    then show ?thesis by (simp add: svc_find_matching_properties_def)
  next
    case False
    with len show ?thesis by (simp add: svc_length)
  qed
  from sub len out show ?thesis by blast
qed

section \<open>The matchers on the sample catalogs\<close>

theorem svc_no_fallback_witness:
  "\<not> passes (no_requirements\<lparr>min_size := Some 10000\<rparr>) PROP001 \<and>
   \<not> passes (no_requirements\<lparr>min_size := Some 10000\<rparr>) PROP002 \<and>
   \<not> passes (no_requirements\<lparr>min_size := Some 10000\<rparr>) PROP003 \<and>
   svc_find_matching_properties svc_sample_data (no_requirements\<lparr>min_size := Some 10000\<rparr>) = []"
proof -
  have h: "\<forall>p\<in>set svc_sample_data. \<not> passes (no_requirements\<lparr>min_size := Some 10000\<rparr>) p"
    by (simp add: svc_sample_data_def PROP001_def PROP002_def PROP003_def no_requirements_def
          passes_def bound_ok_def)
  then show ?thesis
    using svc_no_fallback [OF h] by (simp add: svc_sample_data_def)
qed

text \<open>
  C1 fails as stated on the message matcher \<open>final_web_app.find_matching_properties\<close>: for
  the message "1 people" the size filter (100 to 200 square feet) rejects every record of
  the sample catalog, no other criterion is present, and the function returns the first
  three records of the catalog.
\<close>

theorem web_fallback_counterexample:
  "size_matches web_sample_data ''1 people'' = Inr [] \<and>
   find_matching_properties web_sample_data ''1 people'' = Inr [PROP001, PROP002, PROP003]"
proof -
  have a: "size_matches web_sample_data ''1 people'' = Inr []"
    by code_simp
  have b: "find_matching_properties web_sample_data ''1 people'' = Inr [PROP001, PROP002, PROP003]"
    by code_simp
  from a b show ?thesis by (rule conjI)
qed

theorem svc_rent_bound_witness:
  "(PROP003, None) \<in> set (svc_find_matching_properties svc_sample_data
                             (no_requirements\<lparr>max_rent_per_sf := Some 26\<rparr>)) \<and>
   rent_sf_year PROP003 \<le> 26"
proof -
  have h: "(PROP003, None) \<in> set (svc_find_matching_properties svc_sample_data
                             (no_requirements\<lparr>max_rent_per_sf := Some 26\<rparr>))"
    by code_simp
  have "max_rent_per_sf (no_requirements\<lparr>max_rent_per_sf := Some 26\<rparr>) = Some 26"
    by simp
  from svc_rent_bound [OF this _ h] h show ?thesis by simp
qed

text \<open>
  C6 fails as stated in two places. In \<open>_find_matching_properties\<close> a bound of zero (which
  extraction produces from "$0 per sq ft") is skipped by the truth test, so records with a
  positive rent are returned. In \<open>final_web_app.find_matching_properties\<close> the budget filter
  admits rents up to 1.2 times the budget: for "$25 per sq ft" a record at 28 is returned.
\<close>

theorem rent_bound_counterexample:
  "(PROP001, None) \<in> set (svc_find_matching_properties svc_sample_data
                             (no_requirements\<lparr>max_rent_per_sf := Some 0\<rparr>)) \<and>
   \<not> rent_sf_year PROP001 \<le> 0 \<and>
   find_matching_properties web_sample_data ''$25 per sq ft'' = Inr [PROP001, PROP003, PROP004] \<and>
   \<not> rent_sf_year PROP001 \<le> 25"
proof -
  have a: "(PROP001, None) \<in> set (svc_find_matching_properties svc_sample_data
                             (no_requirements\<lparr>max_rent_per_sf := Some 0\<rparr>))"
    by code_simp
  have b: "find_matching_properties web_sample_data ''$25 per sq ft''
             = Inr [PROP001, PROP003, PROP004]"
    by code_simp
  have c: "\<not> rent_sf_year PROP001 \<le> 0" "\<not> rent_sf_year PROP001 \<le> 25"
    by (simp_all add: PROP001_def)
  from a b c show ?thesis by blast
qed

theorem svc_filter_monotone_witness:
  "adds_bounds no_requirements (no_requirements\<lparr>min_size := Some 2000\<rparr>) \<and>
   set (svc_filtered svc_sample_data (no_requirements\<lparr>min_size := Some 2000\<rparr>))
     \<subseteq> set (svc_filtered svc_sample_data no_requirements) \<and>
   length (svc_find_matching_properties svc_sample_data (no_requirements\<lparr>min_size := Some 2000\<rparr>))
     \<le> length (svc_find_matching_properties svc_sample_data no_requirements)"
proof -
  have h: "adds_bounds no_requirements (no_requirements\<lparr>min_size := Some 2000\<rparr>)"
    by (simp add: adds_bounds_def no_requirements_def)
  from svc_filter_monotone [OF h, of svc_sample_data] h show ?thesis by blast
qed

text \<open>
  C8 fails as stated on \<open>final_web_app.find_matching_properties\<close>, whose criteria are joined
  by union: adding the location "downtown" to the message "10 people" adds a record to
  the result.
\<close>

theorem web_union_counterexample:
  "find_matching_properties web_sample_data ''10 people'' = Inr [PROP003, PROP004] \<and>
   find_matching_properties web_sample_data ''10 people downtown''
     = Inr [PROP003, PROP004, PROP001] \<and>
   PROP001 \<notin> set [PROP003, PROP004]"
proof -
  have a: "find_matching_properties web_sample_data ''10 people'' = Inr [PROP003, PROP004]"
    by code_simp
  have b: "find_matching_properties web_sample_data ''10 people downtown''
     = Inr [PROP003, PROP004, PROP001]"
    by code_simp
  have c: "PROP001 \<notin> set [PROP003, PROP004]"
    by (simp add: PROP001_def PROP003_def PROP004_def)
  from a b c show ?thesis by blast
qed

section \<open>Facts about number conversion and the size list\<close>

lemma digit_val_nonneg: "is_digit c \<Longrightarrow> 0 \<le> digit_val c"
proof -
  assume "is_digit c"
  then have "48 \<le> (of_char c :: nat)" by (simp add: is_digit_def Let_def)
  then have "(48::int) \<le> of_nat (of_char c :: nat)" by linarith
  moreover have "(of_char c :: int) = of_nat (of_char c :: nat)" by (simp add: of_nat_of_char)
  ultimately show ?thesis by (simp add: digit_val_def)
qed

lemma foldl_digits_nonneg:
  "list_all is_digit s \<Longrightarrow> 0 \<le> a \<Longrightarrow> 0 \<le> foldl (\<lambda>a c. 10 * a + digit_val c) a s"
proof (induction s arbitrary: a)
  case Nil
  then show ?case by simp
next
  case (Cons c s)
  from Cons.prems have "0 \<le> 10 * a + digit_val c"
    using digit_val_nonneg [of c] by simp
  with Cons show ?case by simp
qed

lemma py_int_nonneg: "py_int s = Some n \<Longrightarrow> 0 \<le> n"
  by (auto simp: py_int_def foldl_digits_nonneg split: if_splits)

lemma py_float_nonneg:
  assumes "py_float s = Some x"
  shows "0 \<le> x"
proof (cases "dropWhile (\<lambda>c. c \<noteq> CHR ''.'') s")
  case Nil
  with assms obtain a where "py_int (takeWhile (\<lambda>c. c \<noteq> CHR ''.'') s) = Some a" "x = of_int a"
    by (auto simp: py_float_def)
  with py_int_nonneg [of _ a] show ?thesis by simp
next
  case (Cons dot fp)
  with assms obtain a b where a: "py_int (takeWhile (\<lambda>c. c \<noteq> CHR ''.'') s) = Some a"
    and b: "py_int fp = Some b" and x: "x = of_int a + of_int b / 10 ^ length fp"
    by (auto simp: py_float_def split: option.splits)
  from py_int_nonneg [OF a] py_int_nonneg [OF b] x show ?thesis by simp
qed

lemma size_of_match_nonneg: "size_of_match people m = Some n \<Longrightarrow> 0 \<le> n"
  by (auto simp: size_of_match_def split: option.splits dest: py_int_nonneg)

lemma collect_sizes_nonneg: "n \<in> set (collect_sizes t) \<Longrightarrow> 0 \<le> n"
  by (auto simp: collect_sizes_def List.map_filter_def dest: size_of_match_nonneg)

lemma py_min_Min: "xs \<noteq> [] \<Longrightarrow> py_min xs = Min (set xs)"
proof (cases xs)
  case (Cons a list)
  then show ?thesis using Min.set_eq_fold [of a list] by simp
qed simp

lemma py_max_Max: "xs \<noteq> [] \<Longrightarrow> py_max xs = Max (set xs)"
proof (cases xs)
  case (Cons a list)
  then show ?thesis using Max.set_eq_fold [of a list] by simp
qed simp

lemma budget_loop_nonneg: "budget_loop ps t = Some b \<Longrightarrow> 0 \<le> b"
  by (induction ps t rule: budget_loop.induct)
     (auto split: list.splits option.splits if_splits dest: py_float_nonneg)

lemma size_bounds_order:
  assumes "sizes \<noteq> []" and "\<And>n. n \<in> set sizes \<Longrightarrow> 0 \<le> n"
  shows "(of_int (Min (set sizes)) :: rat)
           \<le> (if length sizes > 1 then of_int (Max (set sizes)) else of_int (Min (set sizes)) * (3/2))"
proof -
  have "Min (set sizes) \<in> set sizes" using assms(1) by (intro Min_in) simp_all
  then have nn: "0 \<le> Min (set sizes)" by (rule assms(2))
  have "Min (set sizes) \<le> Max (set sizes)" using assms(1) by (intro Min.boundedI Max_ge) simp_all
  then have "(of_int (Min (set sizes)) :: rat) \<le> of_int (Max (set sizes))" by simp
  moreover have "(of_int (Min (set sizes)) :: rat) \<le> of_int (Min (set sizes)) * (3/2)"
    using nn by simp
  ultimately show ?thesis by simp
qed

section \<open>Claims about requirement extraction\<close>




lemma size_bounds_ok:
  assumes "\<And>n. n \<in> set sizes \<Longrightarrow> 0 \<le> n"
  shows "nonneg_bound (fst (size_bounds sizes)) \<and> nonneg_bound (snd (size_bounds sizes)) \<and>
         range_ok (fst (size_bounds sizes)) (snd (size_bounds sizes))"
proof (cases "sizes = []")
  case True
  then show ?thesis by (simp add: size_bounds_def nonneg_bound_def)
next
  case False
  have "Min (set sizes) \<in> set sizes" using False by (intro Min_in) simp_all
  then have nn: "0 \<le> Min (set sizes)" by (rule assms)
  have "Max (set sizes) \<in> set sizes" using False by (intro Max_in) simp_all
  then have nx: "0 \<le> Max (set sizes)" by (rule assms)
  from size_bounds_order [OF False assms] nn nx False show ?thesis
    by (simp add: size_bounds_def nonneg_bound_def py_min_Min py_max_Max)
qed

lemma extract_profile_ok: "profile_ok (svc_extract_requirements h)"
proof -
  let ?t = "lower (join_with '' '' h)"
  have b: "nonneg_bound (budget_loop budget_patterns ?t)"
    by (auto simp: nonneg_bound_def split: option.splits dest: budget_loop_nonneg)
  from size_bounds_ok [of "collect_sizes ?t", OF collect_sizes_nonneg] b show ?thesis
    by (simp add: profile_ok_def svc_extract_requirements_def Let_def)
qed

lemma scale_if_set_nonneg: "0 \<le> f \<Longrightarrow> nonneg_bound v \<Longrightarrow> nonneg_bound (scale_if_set f v)"
  by (auto simp: scale_if_set_def nonneg_bound_def truthy_def split: option.splits)

lemma scale_if_set_upper:
  "1 \<le> f \<Longrightarrow> v = Some b \<Longrightarrow> 0 \<le> b \<Longrightarrow> \<exists>b'. scale_if_set f v = Some b' \<and> b \<le> b'"
  by (auto simp: scale_if_set_def truthy_def mult_le_cancel_left1)

lemma apply_emotion_profile_ok:
  assumes "profile_ok req"
  shows "profile_ok (svc_apply_emotion_filters req e)"
proof -
  have bounds: "min_size (svc_apply_emotion_filters req e) = min_size req"
    "max_size (svc_apply_emotion_filters req e) =
       (if get_default (ei_enthusiasm_level e) (1/2) > 7/10
        then scale_if_set (11/10) (max_size req) else max_size req)"
    "max_rent_per_sf (svc_apply_emotion_filters req e) =
       (if get_default (ei_enthusiasm_level e) (1/2) > 7/10
        then scale_if_set (12/10) (max_rent_per_sf req) else max_rent_per_sf req)"
    by (simp_all add: svc_apply_emotion_filters_def Let_def)
  from assms have a: "nonneg_bound (min_size req)" and b: "nonneg_bound (max_size req)"
    and c: "nonneg_bound (max_rent_per_sf req)" and d: "range_ok (min_size req) (max_size req)"
    by (simp_all add: profile_ok_def)
  have b': "nonneg_bound (scale_if_set (11/10) (max_size req))"
    using b by (intro scale_if_set_nonneg) simp_all
  have c': "nonneg_bound (scale_if_set (12/10) (max_rent_per_sf req))"
    using c by (intro scale_if_set_nonneg) simp_all
  have d': "range_ok (min_size req) (scale_if_set (11/10) (max_size req))"
  proof (cases "min_size req")
    case None
    with d have "max_size req = None" by (cases "max_size req") simp_all
    with None show ?thesis by (simp add: scale_if_set_def truthy_def)
  next
    case (Some lo)
    with d obtain hi where hi: "max_size req = Some hi" "lo \<le> hi"
      by (cases "max_size req") simp_all
    from a Some have "0 \<le> lo" by (simp add: nonneg_bound_def)
    with hi have "0 \<le> hi" by simp
    from scale_if_set_upper [OF _ hi(1) this, of "11/10"] obtain hi'
      where "scale_if_set (11/10) (max_size req) = Some hi'" "hi \<le> hi'" by auto
    with Some hi show ?thesis by simp
  qed
  have d'': "range_ok (min_size (svc_apply_emotion_filters req e))
               (max_size (svc_apply_emotion_filters req e))"
    using d d' by (simp add: bounds)
  from a b b' c c' d'' show ?thesis
    by (simp add: profile_ok_def bounds)
qed

text \<open>
  C4 (as amended). In every profile that \<open>_extract_requirements\<close> produces, and in that
  profile after \<open>_apply_emotion_filters\<close>, each of \<open>min_size\<close>, \<open>max_size\<close> and
  \<open>max_rent_per_sf\<close> is absent or not negative, and the two size bounds are both absent or
  both set with \<open>min_size\<close> at most \<open>max_size\<close>.
\<close>

theorem profile_bounds_ok:
  "profile_ok (svc_extract_requirements conversation_history) \<and>
   profile_ok (svc_apply_emotion_filters (svc_extract_requirements conversation_history) emotion)"
  using extract_profile_ok apply_emotion_profile_ok by blast

text \<open>
  C4 fails as stated where it says strictly positive: nothing in the extraction excludes
  zero. The conversation "0 people", "budget $0" gives a profile whose three bounds are 0.
\<close>

theorem zero_bound_counterexample:
  "min_size (svc_extract_requirements [''0 people'', ''budget $0'']) = Some 0 \<and>
   max_size (svc_extract_requirements [''0 people'', ''budget $0'']) = Some 0 \<and>
   max_rent_per_sf (svc_extract_requirements [''0 people'', ''budget $0'']) = Some 0"
proof -
  have a: "min_size (svc_extract_requirements [''0 people'', ''budget $0'']) = Some 0"
    by code_simp
  have b: "max_size (svc_extract_requirements [''0 people'', ''budget $0'']) = Some 0"
    by code_simp
  have c: "max_rent_per_sf (svc_extract_requirements [''0 people'', ''budget $0'']) = Some 0"
    by code_simp
  from a b c show ?thesis by blast
qed

section \<open>Facts about the matcher of regular expressions\<close>

lemma one_char_None: "(c, rest) \<in> set (one_char P s) \<Longrightarrow> c = None"
  by (cases s) (auto split: if_splits)

lemma star_iter_None: "(c, rest) \<in> set (star_iter n f s) \<Longrightarrow> c = None"
  by (induction n arbitrary: s) (auto split: if_splits)

lemma lazy_iter_None: "(c, rest) \<in> set (lazy_iter n f s) \<Longrightarrow> c = None"
  by (induction n arbitrary: s) (auto split: if_splits)

lemma nogroup_None: "nogroup r \<Longrightarrow> (c, rest) \<in> set (ms r s) \<Longrightarrow> c = None"
proof (induction r arbitrary: c rest s)
  case (Seq a b)
  then show ?case by (fastforce)
qed (auto dest: one_char_None star_iter_None lazy_iter_None split: if_splits)

lemma one_char_suffix: "(c, rest) \<in> set (one_char P s) \<Longrightarrow> \<exists>x. s = x # rest \<and> P x"
  by (cases s) (auto split: if_splits)

lemma starts_with_append: "starts_with s w \<Longrightarrow> s = w @ drop (length w) s"
  by (induction s w rule: starts_with.induct) auto

lemma star_iter_suffix:
  assumes "\<And>s c r. (c, r) \<in> set (f s) \<Longrightarrow> \<exists>pre. s = pre @ r"
  shows "(c, rest) \<in> set (star_iter n f s) \<Longrightarrow> \<exists>pre. s = pre @ rest"
proof (induction n arbitrary: s)
  case 0
  then show ?case by simp
next
  case (Suc n)
  from Suc.prems consider "rest = s" | c1 r1 where "(c1, r1) \<in> set (f s)" "(c, rest) \<in> set (star_iter n f r1)"
    by (auto split: if_splits)
  then show ?case
  proof cases
    case 1
    then show ?thesis by simp
  next
    case 2
    from assms[OF 2(1)] obtain p1 where "s = p1 @ r1" by blast
    moreover from Suc.IH[OF 2(2)] obtain p2 where "r1 = p2 @ rest" by blast
    ultimately show ?thesis by simp
  qed
qed

lemma lazy_iter_suffix:
  assumes "\<And>s c r. (c, r) \<in> set (f s) \<Longrightarrow> \<exists>pre. s = pre @ r"
  shows "(c, rest) \<in> set (lazy_iter n f s) \<Longrightarrow> \<exists>pre. s = pre @ rest"
proof (induction n arbitrary: s)
  case 0
  then show ?case by simp
next
  case (Suc n)
  from Suc.prems consider "rest = s" | c1 r1 where "(c1, r1) \<in> set (f s)" "(c, rest) \<in> set (lazy_iter n f r1)"
    by (auto split: if_splits)
  then show ?case
  proof cases
    case 1
    then show ?thesis by simp
  next
    case 2
    from assms[OF 2(1)] obtain p1 where "s = p1 @ r1" by blast
    moreover from Suc.IH[OF 2(2)] obtain p2 where "r1 = p2 @ rest" by blast
    ultimately show ?thesis by simp
  qed
qed

lemma ms_suffix: "(c, rest) \<in> set (ms r s) \<Longrightarrow> \<exists>pre. s = pre @ rest"
proof (induction r arbitrary: c rest s)
  case (Lit w)
  then show ?case by (auto split: if_splits dest: starts_with_append)
next
  case (Seq a b)
  from Seq.prems obtain c1 r1 c2 where 1: "(c1, r1) \<in> set (ms a s)" and 2: "(c2, rest) \<in> set (ms b r1)"
    by auto
  from Seq.IH(1)[OF 1] Seq.IH(2)[OF 2] show ?case by auto
next
  case (Star a)
  then show ?case using star_iter_suffix[of "ms a"] by auto
next
  case (StarLazy a)
  then show ?case using lazy_iter_suffix[of "ms a"] by auto
qed (auto dest: one_char_suffix)

lemma group_rx_capture:
  "group_rx r = Some g \<Longrightarrow> (c, rest) \<in> set (ms r s) \<Longrightarrow>
     \<exists>pre rest' c'. c = Some pre \<and> (c', rest') \<in> set (ms g (pre @ rest'))"
proof (induction r arbitrary: c rest s)
  case (Group a)
  then obtain c' where m: "(c', rest) \<in> set (ms a s)" and c: "c = Some (take (length s - length rest) s)"
    by auto
  from ms_suffix[OF m] obtain pre where "s = pre @ rest" by blast
  with m c Group.prems(1) show ?case by auto
next
  case (Seq a b)
  from Seq.prems(2) obtain c1 r1 c2 where 1: "(c1, r1) \<in> set (ms a s)" and 2: "(c2, rest) \<in> set (ms b r1)"
    and c: "c = first_some c1 c2" by auto
  show ?case
  proof (cases "group_rx a")
    case None
    with Seq.prems(1) have ng: "nogroup a" and gb: "group_rx b = Some g" by (auto split: if_splits)
    from nogroup_None[OF ng 1] c have "c = c2" by simp
    with Seq.IH(2)[OF gb 2] show ?thesis by simp
  next
    case (Some g')
    with Seq.prems(1) have "group_rx a = Some g" by simp
    from Seq.IH(1)[OF this 1] obtain pre rest' c' where "c1 = Some pre" "(c', rest') \<in> set (ms g (pre @ rest'))"
      by blast
    with c show ?thesis by auto
  qed
qed simp_all

lemma one_char_only:
  "(c, rest) \<in> set (one_char Q s) \<Longrightarrow> \<forall>x. Q x \<longrightarrow> P x \<Longrightarrow> \<exists>pre. s = pre @ rest \<and> list_all P pre"
  by (cases s) (auto split: if_splits)

lemma star_iter_only:
  assumes "\<And>s c r. (c, r) \<in> set (f s) \<Longrightarrow> \<exists>pre. s = pre @ r \<and> list_all P pre"
  shows "(c, rest) \<in> set (star_iter n f s) \<Longrightarrow> \<exists>pre. s = pre @ rest \<and> list_all P pre"
proof (induction n arbitrary: s)
  case 0
  then show ?case by simp
next
  case (Suc n)
  from Suc.prems consider "rest = s"
    | c1 r1 where "(c1, r1) \<in> set (f s)" "(c, rest) \<in> set (star_iter n f r1)"
    by (auto split: if_splits)
  then show ?case
  proof cases
    case 1
    then show ?thesis by simp
  next
    case 2
    from assms[OF 2(1)] obtain p1 where "s = p1 @ r1" "list_all P p1" by blast
    moreover from Suc.IH[OF 2(2)] obtain p2 where "r1 = p2 @ rest" "list_all P p2" by blast
    ultimately have "s = (p1 @ p2) @ rest \<and> list_all P (p1 @ p2)" by simp
    then show ?thesis by blast
  qed
qed

lemma lazy_iter_only:
  assumes "\<And>s c r. (c, r) \<in> set (f s) \<Longrightarrow> \<exists>pre. s = pre @ r \<and> list_all P pre"
  shows "(c, rest) \<in> set (lazy_iter n f s) \<Longrightarrow> \<exists>pre. s = pre @ rest \<and> list_all P pre"
proof (induction n arbitrary: s)
  case 0
  then show ?case by simp
next
  case (Suc n)
  from Suc.prems consider "rest = s"
    | c1 r1 where "(c1, r1) \<in> set (f s)" "(c, rest) \<in> set (lazy_iter n f r1)"
    by (auto split: if_splits)
  then show ?case
  proof cases
    case 1
    then show ?thesis by simp
  next
    case 2
    from assms[OF 2(1)] obtain p1 where "s = p1 @ r1" "list_all P p1" by blast
    moreover from Suc.IH[OF 2(2)] obtain p2 where "r1 = p2 @ rest" "list_all P p2" by blast
    ultimately have "s = (p1 @ p2) @ rest \<and> list_all P (p1 @ p2)" by simp
    then show ?thesis by blast
  qed
qed

lemma ms_only:
  "only P r \<Longrightarrow> (c, rest) \<in> set (ms r s) \<Longrightarrow> \<exists>pre. s = pre @ rest \<and> list_all P pre"
proof (induction r arbitrary: c rest s)
  case (Lit w)
  from Lit.prems have sw: "starts_with s w" and r: "rest = drop (length w) s"
    by (auto split: if_splits)
  from starts_with_append [OF sw] r have "s = w @ rest" by simp
  with Lit.prems(1) show ?case by auto
next
  case (Seq a b)
  from Seq.prems(2) obtain c1 r1 c2 where 1: "(c1, r1) \<in> set (ms a s)" and 2: "(c2, rest) \<in> set (ms b r1)"
    by auto
  from Seq.prems(1) have oa: "only P a" and ob: "only P b" by simp_all
  from Seq.IH(1)[OF oa 1] obtain p1 where "s = p1 @ r1" "list_all P p1" by blast
  moreover from Seq.IH(2)[OF ob 2] obtain p2 where "r1 = p2 @ rest" "list_all P p2" by blast
  ultimately have "s = (p1 @ p2) @ rest \<and> list_all P (p1 @ p2)" by simp
  then show ?case by blast
next
  case (Alt a b)
  then show ?case by auto
next
  case (Opt a)
  then show ?case by auto
next
  case (Star a)
  from Star.prems(1) have oa: "only P a" by simp
  from Star.prems(2) have "(c, rest) \<in> set (star_iter (length s) (ms a) s)" by simp
  then show ?case by (rule star_iter_only [rotated]) (rule Star.IH [OF oa])
next
  case (StarLazy a)
  from StarLazy.prems(1) have oa: "only P a" by simp
  from StarLazy.prems(2) have "(c, rest) \<in> set (lazy_iter (length s) (ms a) s)" by simp
  then show ?case by (rule lazy_iter_only [rotated]) (rule StarLazy.IH [OF oa])
next
  case (Group a)
  then show ?case by auto
qed (auto dest: one_char_only)

lemma ms_digit_first:
  "(c, rest) \<in> set (ms (Seq Digit a) s) \<Longrightarrow> s \<noteq> [] \<and> is_digit (hd s)"
  by (cases s) (auto split: if_splits)

lemma findall_in:
  "m \<in> set (findall r s) \<Longrightarrow> \<exists>s' c rest. (c, rest) \<in> set (ms r s') \<and> m = group1 (c, rest)"
proof (induction r s rule: findall.induct)
  case (1 r)
  show ?case
  proof (cases "ms r []")
    case Nil
    with 1 show ?thesis by simp
  next
    case (Cons mt rest)
    obtain c0 r0 where mt: "mt = (c0, r0)" by (cases mt)
    from Cons mt have "(c0, r0) \<in> set (ms r [])" by simp
    moreover from 1 Cons mt have "m = group1 (c0, r0)" by simp
    ultimately show ?thesis by blast
  qed
next
  case (2 r x xs)
  show ?case
  proof (cases "ms r (x # xs)")
    case Nil
    with 2 show ?thesis by simp
  next
    case (Cons mt rest)
    then have hd_in: "mt \<in> set (ms r (x # xs))" by simp
    from 2(4) Cons consider "m = group1 mt"
      | "length (snd mt) < Suc (length xs)" "m \<in> set (findall r (snd mt))"
      | "\<not> length (snd mt) < Suc (length xs)" "m \<in> set (findall r xs)"
      by (auto split: if_splits)
    then show ?thesis
    proof cases
      case 1
      obtain c0 r0 where mt: "mt = (c0, r0)" by (cases mt)
      with 1 hd_in show ?thesis by blast
    next
      case 2
      with "2.IH"(2) [OF Cons] show ?thesis by blast
    next
      case 3
      with "2.IH"(3) [OF Cons] show ?thesis by blast
    qed
  qed
qed


lemma capture_of_group:
  assumes "group_rx r = Some g" and "(c, rest) \<in> set (ms r s)"
  shows "\<exists>rest' c'. (c', rest') \<in> set (ms g (group1 (c, rest) @ rest'))"
proof -
  from group_rx_capture [OF assms] obtain pre rest' c'
    where "c = Some pre" "(c', rest') \<in> set (ms g (pre @ rest'))" by blast
  then show ?thesis by auto
qed

section \<open>Facts about the captured numbers\<close>

lemma is_digit_not_dot: "is_digit c \<Longrightarrow> c \<noteq> CHR ''.''"
  by (auto simp: is_digit_def)

lemma is_digit_not_comma: "is_digit c \<Longrightarrow> c \<noteq> CHR '',''"
  by (auto simp: is_digit_def)

lemma py_int_digits: "ds \<noteq> [] \<Longrightarrow> list_all is_digit ds \<Longrightarrow> \<exists>n. py_int ds = Some n"
  by (simp add: py_int_def)

lemma takeWhile_digits: "list_all is_digit ds \<Longrightarrow> takeWhile (\<lambda>c. c \<noteq> CHR ''.'') (ds @ CHR ''.'' # fp) = ds"
  by (induction ds) (auto dest: is_digit_not_dot)

lemma dropWhile_digits:
  "list_all is_digit ds \<Longrightarrow> dropWhile (\<lambda>c. c \<noteq> CHR ''.'') (ds @ CHR ''.'' # fp) = CHR ''.'' # fp"
  by (induction ds) (auto dest: is_digit_not_dot)

lemma takeWhile_digits_all: "list_all is_digit ds \<Longrightarrow> takeWhile (\<lambda>c. c \<noteq> CHR ''.'') ds = ds"
  by (induction ds) (auto dest: is_digit_not_dot)

lemma dropWhile_digits_all: "list_all is_digit ds \<Longrightarrow> dropWhile (\<lambda>c. c \<noteq> CHR ''.'') ds = []"
  by (induction ds) (auto dest: is_digit_not_dot)

lemma py_float_digits:
  assumes "ds \<noteq> []" and "list_all is_digit ds"
  shows "\<exists>x. py_float ds = Some x"
proof -
  from py_int_digits [OF assms] obtain n where "py_int ds = Some n" by blast
  then show ?thesis
    using assms(2) by (simp add: py_float_def takeWhile_digits_all dropWhile_digits_all)
qed

lemma py_float_decimal:
  assumes "ds \<noteq> []" and "list_all is_digit ds" and "fp \<noteq> []" and "list_all is_digit fp"
  shows "\<exists>x. py_float (ds @ CHR ''.'' # fp) = Some x"
proof -
  from py_int_digits [OF assms(1,2)] obtain a where "py_int ds = Some a" by blast
  moreover from py_int_digits [OF assms(3,4)] obtain b where "py_int fp = Some b" by blast
  ultimately show ?thesis
    using assms(2) by (simp add: py_float_def takeWhile_digits dropWhile_digits)
qed

lemma ms_SeqD:
  "(c, rest) \<in> set (ms (Seq a b) s) \<Longrightarrow>
     \<exists>c1 r1 c2. (c1, r1) \<in> set (ms a s) \<and> (c2, rest) \<in> set (ms b r1) \<and> c = first_some c1 c2"
  by auto

lemma ms_shorter:
  assumes "(c1, r1) \<in> set (ms Digit s)" and "(c2, rest) \<in> set (ms b r1)"
  shows "length rest < length s"
proof -
  from assms(1) obtain x where "s = x # r1" by (auto dest: one_char_suffix)
  moreover from ms_suffix [OF assms(2)] obtain p where "r1 = p @ rest" by blast
  ultimately show ?thesis by simp
qed

lemma plus_digit_consumed:
  assumes "(c, rest) \<in> set (ms (Plus Digit) s)"
  shows "\<exists>ds. s = ds @ rest \<and> ds \<noteq> [] \<and> list_all is_digit ds"
proof -
  have o: "only is_digit (Plus Digit)" by (simp add: Plus_def)
  from ms_only [OF o assms] obtain ds where ds: "s = ds @ rest" "list_all is_digit ds" by blast
  from assms have "(c, rest) \<in> set (ms (Seq Digit (Star Digit)) s)" by (simp only: Plus_def)
  from ms_SeqD [OF this] obtain c1 r1 c2
    where 1: "(c1, r1) \<in> set (ms Digit s)" and 2: "(c2, rest) \<in> set (ms (Star Digit) r1)"
    by blast
  from ms_shorter [OF 1 2] ds(1) have "ds \<noteq> []" by auto
  with ds show ?thesis by blast
qed

lemma remove_commas_digits:
  "list_all (\<lambda>c. is_digit c \<or> c = CHR '','') w \<Longrightarrow> list_all is_digit (remove_commas w)"
  by (induction w) (auto simp: remove_commas_def)

lemma thousands_consumed:
  assumes "(c, rest) \<in> set (ms thousands (w @ rest))"
  shows "remove_commas w \<noteq> [] \<and> list_all is_digit (remove_commas w)"
proof -
  have o: "only (\<lambda>c. is_digit c \<or> c = CHR '','') thousands"
    by (simp add: thousands_def digits_1_3_def)
  from ms_only [OF o assms] obtain pre where "w @ rest = pre @ rest"
    and "list_all (\<lambda>c. is_digit c \<or> c = CHR '','') pre" by blast
  then have w: "list_all (\<lambda>c. is_digit c \<or> c = CHR '','') w" by simp
  from assms have "(c, rest) \<in> set (ms (Seq digits_1_3
      (Star (Seq (Lit '','') (Seq Digit (Seq Digit Digit))))) (w @ rest))"
    by (simp only: thousands_def)
  from ms_SeqD [OF this] obtain c1 r1 c2
    where 1: "(c1, r1) \<in> set (ms digits_1_3 (w @ rest))"
      and 2: "(c2, rest) \<in> set (ms (Star (Seq (Lit '','') (Seq Digit (Seq Digit Digit)))) r1)"
    by blast
  from 1 have "(c1, r1) \<in> set (ms (Seq Digit (Opt (Seq Digit (Opt Digit)))) (w @ rest))"
    by (simp only: digits_1_3_def)
  from ms_SeqD [OF this] obtain c3 r3 c4
    where 3: "(c3, r3) \<in> set (ms Digit (w @ rest))"
      and 4: "(c4, r1) \<in> set (ms (Opt (Seq Digit (Opt Digit))) r3)"
    by blast
  from 3 have d: "w @ rest \<noteq> [] \<and> is_digit (hd (w @ rest))"
    by (cases "w @ rest") (auto split: if_splits)
  from ms_shorter [OF 3 4] have "length r1 < length (w @ rest)" .
  moreover from ms_suffix [OF 2] obtain p where "r1 = p @ rest" by blast
  ultimately have "w \<noteq> []" by auto
  with d have "is_digit (hd w)" by simp
  with \<open>w \<noteq> []\<close> have "remove_commas w \<noteq> []"
    by (cases w) (auto simp: remove_commas_def dest: is_digit_not_comma)
  with remove_commas_digits [OF w] show ?thesis by simp
qed

lemma point_digits_consumed:
  assumes "(c, rest) \<in> set (ms (Seq (Lit ''.'') (Seq Digit Digit)) r1)"
  shows "\<exists>d1 d2. r1 = CHR ''.'' # d1 # d2 # rest \<and> is_digit d1 \<and> is_digit d2"
proof -
  from ms_SeqD [OF assms] obtain c1 r2 c2
    where 1: "(c1, r2) \<in> set (ms (Lit ''.'') r1)" and 2: "(c2, rest) \<in> set (ms (Seq Digit Digit) r2)"
    by blast
  from 1 have a: "r1 = CHR ''.'' # r2" by (cases r1) (auto split: if_splits)
  from ms_SeqD [OF 2] obtain c3 r3 c4
    where 3: "(c3, r3) \<in> set (ms Digit r2)" and 4: "(c4, rest) \<in> set (ms Digit r3)"
    by blast
  from 3 obtain d1 where b: "r2 = d1 # r3" "is_digit d1" by (auto dest: one_char_suffix)
  from 4 obtain d2 where c: "r3 = d2 # rest" "is_digit d2" by (auto dest: one_char_suffix)
  from a b c show ?thesis by simp
qed

lemma decimal_consumed:
  assumes "(c, rest) \<in> set (ms (Seq (Plus Digit) (Opt (Seq (Lit ''.'') (Seq Digit Digit)))) (w @ rest))"
  shows "\<exists>x. py_float (remove_commas w) = Some x"
proof -
  from ms_SeqD [OF assms] obtain c1 r1 c2
    where 1: "(c1, r1) \<in> set (ms (Plus Digit) (w @ rest))"
      and 2: "(c2, rest) \<in> set (ms (Opt (Seq (Lit ''.'') (Seq Digit Digit))) r1)"
    by blast
  from plus_digit_consumed [OF 1] obtain ds
    where ds: "w @ rest = ds @ r1" "ds \<noteq> []" "list_all is_digit ds" by blast
  from ds(3) have nc: "remove_commas ds = ds"
    by (induction ds) (auto simp: remove_commas_def dest: is_digit_not_comma)
  from 2 consider "rest = r1" | "(c2, rest) \<in> set (ms (Seq (Lit ''.'') (Seq Digit Digit)) r1)"
    by auto
  then show ?thesis
  proof cases
    case 1
    with ds(1) have "w = ds" by simp
    with nc py_float_digits [OF ds(2,3)] show ?thesis by simp
  next
    case 2
    from point_digits_consumed [OF 2] obtain d1 d2
      where r1: "r1 = CHR ''.'' # d1 # d2 # rest" and d: "is_digit d1" "is_digit d2" by blast
    from ds(1) r1 have "w @ rest = (ds @ [CHR ''.'', d1, d2]) @ rest" by simp
    then have w: "w = ds @ CHR ''.'' # [d1, d2]" by simp
    from d have "remove_commas [d1, d2] = [d1, d2]"
      by (auto simp: remove_commas_def dest: is_digit_not_comma)
    with nc w have "remove_commas w = ds @ CHR ''.'' # [d1, d2]"
      by (simp add: remove_commas_def)
    moreover have "\<exists>x. py_float (ds @ CHR ''.'' # [d1, d2]) = Some x"
      using ds(2,3) d by (intro py_float_decimal) simp_all
    ultimately show ?thesis by simp
  qed
qed

lemma sqft_budget_parses:
  assumes "m \<in> set (findall budget_pattern_sqft t)"
  shows "\<exists>x. py_float (remove_commas m) = Some x"
proof -
  from findall_in [OF assms] obtain s' c rest
    where 1: "(c, rest) \<in> set (ms budget_pattern_sqft s')" and m: "m = group1 (c, rest)" by blast
  have g: "group_rx budget_pattern_sqft
             = Some (Seq (Plus Digit) (Opt (Seq (Lit ''.'') (Seq Digit Digit))))"
    by (simp add: budget_pattern_sqft_def)
  from capture_of_group [OF g 1] obtain rest' c'
    where "(c', rest') \<in> set (ms (Seq (Plus Digit) (Opt (Seq (Lit ''.'') (Seq Digit Digit))))
                               (group1 (c, rest) @ rest'))"
    by blast
  then have "(c', rest') \<in> set (ms (Seq (Plus Digit) (Opt (Seq (Lit ''.'') (Seq Digit Digit))))
                               (m @ rest'))"
    by (simp only: m)
  then show ?thesis by (rule decimal_consumed)
qed

lemma thousands_parses:
  assumes "m \<in> set (findall r t)" and "group_rx r = Some thousands"
  shows "\<exists>x. py_float (remove_commas m) = Some x"
proof -
  from findall_in [OF assms(1)] obtain s' c rest
    where 1: "(c, rest) \<in> set (ms r s')" and m: "m = group1 (c, rest)" by blast
  from capture_of_group [OF assms(2) 1] obtain rest' c'
    where "(c', rest') \<in> set (ms thousands (group1 (c, rest) @ rest'))" by blast
  then have "(c', rest') \<in> set (ms thousands (m @ rest'))" by (simp only: m)
  from thousands_consumed [OF this] show ?thesis by (intro py_float_digits) simp_all
qed

lemma month_budget_parses:
  "m \<in> set (findall budget_pattern_month t) \<Longrightarrow> \<exists>x. py_float (remove_commas m) = Some x"
  by (erule thousands_parses) (simp add: budget_pattern_month_def)

lemma generic_budget_parses:
  "m \<in> set (findall budget_pattern_generic t) \<Longrightarrow> \<exists>x. py_float (remove_commas m) = Some x"
  by (erule thousands_parses) (simp add: budget_pattern_generic_def)

lemma budget_loop_priority: "budget_loop budget_patterns t = budget_by_priority t"
proof (cases "findall budget_pattern_sqft t")
  case (Cons m rest)
  then have "m \<in> set (findall budget_pattern_sqft t)" by simp
  from sqft_budget_parses [OF this] Cons show ?thesis
    by (auto simp: budget_patterns_def budget_by_priority_def)
next
  case Nil
  note n1 = this
  show ?thesis
  proof (cases "findall budget_pattern_month t")
    case (Cons m rest)
    then have "m \<in> set (findall budget_pattern_month t)" by simp
    from month_budget_parses [OF this] Cons n1 show ?thesis
      by (auto simp: budget_patterns_def budget_by_priority_def)
  next
    case Nil
    note n2 = this
    show ?thesis
    proof (cases "findall budget_pattern_generic t")
      case (Cons m rest)
      then have "m \<in> set (findall budget_pattern_generic t)" by simp
      from generic_budget_parses [OF this] Cons n1 n2 show ?thesis
        by (auto simp: budget_patterns_def budget_by_priority_def)
    next
      case Nil
      with n1 n2 show ?thesis
        by (simp add: budget_patterns_def budget_by_priority_def)
    qed
  qed
qed

lemma budget_by_priority_None:
  "(budget_by_priority t = None) =
     (findall budget_pattern_sqft t = [] \<and> findall budget_pattern_month t = [] \<and>
      findall budget_pattern_generic t = [])"
proof (cases "findall budget_pattern_sqft t")
  case (Cons m rest)
  then have "m \<in> set (findall budget_pattern_sqft t)" by simp
  from sqft_budget_parses [OF this] Cons show ?thesis
    by (auto simp: budget_by_priority_def)
next
  case Nil
  note n1 = this
  show ?thesis
  proof (cases "findall budget_pattern_month t")
    case (Cons m rest)
    then have "m \<in> set (findall budget_pattern_month t)" by simp
    from month_budget_parses [OF this] Cons n1 show ?thesis
      by (auto simp: budget_by_priority_def)
  next
    case Nil
    note n2 = this
    show ?thesis
    proof (cases "findall budget_pattern_generic t")
      case (Cons m rest)
      then have "m \<in> set (findall budget_pattern_generic t)" by simp
      from generic_budget_parses [OF this] Cons n1 n2 show ?thesis
        by (auto simp: budget_by_priority_def)
    next
      case Nil
      with n1 n2 show ?thesis
        by (simp add: budget_by_priority_def)
    qed
  qed
qed

section \<open>Claims about budget detection\<close>

text \<open>
  C5. Budget detection tries the three pattern families in the order per square foot, per
  month (converted by \<open>monthly * 12 / 2000\<close>), generic; the first family that has a match
  decides, by its first match, and later budget mentions are ignored. A family that has a
  match always yields a figure (the captured text always converts), so the result is absent
  exactly when no family matches.
\<close>

theorem budget_first_family_wins:
  "max_rent_per_sf (svc_extract_requirements conversation_history)
     = budget_by_priority (lower (join_with '' '' conversation_history)) \<and>
   (budget_by_priority (lower (join_with '' '' conversation_history)) = None) =
     (findall budget_pattern_sqft (lower (join_with '' '' conversation_history)) = [] \<and>
      findall budget_pattern_month (lower (join_with '' '' conversation_history)) = [] \<and>
      findall budget_pattern_generic (lower (join_with '' '' conversation_history)) = [])"
proof -
  have "max_rent_per_sf (svc_extract_requirements conversation_history)
     = budget_by_priority (lower (join_with '' '' conversation_history))"
    by (simp add: svc_extract_requirements_def Let_def budget_loop_priority)
  then show ?thesis using budget_by_priority_None by blast
qed

text \<open>
  Examples: a monthly amount wins over a generic mention wherever it stands in the text; a
  per-square-foot amount wins over both; of two generic mentions the first is kept.
\<close>

lemma budget_examples:
  "max_rent_per_sf (svc_extract_requirements [''$5,000 per month'', ''budget $3'']) = Some 30"
  "max_rent_per_sf (svc_extract_requirements [''budget $3'', ''or $5,000 per month'']) = Some 30"
  "max_rent_per_sf (svc_extract_requirements [''budget $3,000 or $5,000 per month and $27.50 per sq ft'']) = Some (55/2)"
  "max_rent_per_sf (svc_extract_requirements [''my budget is $40 maybe $45'']) = Some 40"
  by code_simp+

section \<open>Facts about the message matcher\<close>













end
